theory Spec2Isabelle
  imports Main
begin

section \<open>Python values, exceptions and the process state\<close>

text \<open>
  The class \<open>Index\<close> of \<open>src/loader/index.py\<close> is a thin layer over a vector-index
  library, the logging module and \<open>os.path\<close>. An exception is a value of
  \<open>py_error\<close>: \<open>TypeError\<close> is the one the class raises itself (and the one
  \<open>os.path.exists\<close> raises on \<open>None\<close>), \<open>LibraryError\<close> is anything a library call
  raises, which the class never catches.
\<close>

datatype py_error = TypeError string | LibraryError string

text \<open>\<open>str(x)\<close> as an f-string applies it to a value that is \<open>None\<close> or a \<open>str\<close>.\<close>

fun py_str :: "string option \<Rightarrow> string" where
  "py_str None = ''None''"
| "py_str (Some s) = s"

type_synonym document = string

text \<open>
  A setting of the library accepts a name (\<open>"default"\<close>, \<open>"local"\<close>) as well as a
  constructed object.
\<close>

datatype 'a setting_value = Str string | Obj 'a

text \<open>
  \<open>llama_index.core.Settings\<close>: the three process-wide attributes the class assigns.
  \<open>None\<close> is an attribute this program has not assigned. An assignment stores the value
  given; what the library does with a stored name when it is first used is the library's.
\<close>

record ('llm, 'emb) settings =
  llm :: "'llm setting_value option"
  embed_model :: "'emb setting_value option"
  chunk_size :: "int option"

text \<open>
  Every call that leaves the class is recorded, in order, with the arguments the class
  passes: \<open>logger.info(msg)\<close>, the library constructors and \<open>os.path.exists\<close>.
\<close>

datatype event =
    LogInfo string
  | Call_LlamaCPP string int bool
  | Call_HuggingFaceEmbedding string
  | Call_from_documents "document list" bool
  | Call_persist string
  | Call_exists "string option"
  | Call_from_defaults "string option"
  | Call_load_index_from_storage

text \<open>
  The state of the process: the settings, the level of the logger named \<open>"index"\<close>, the
  calls made so far, and the world outside the process (file system, network, model
  cache), of which the class knows nothing.
\<close>

record ('llm, 'emb, 'w) state =
  Settings :: "('llm, 'emb) settings"
  logger_level :: int
  trace :: "event list"
  world :: "'w"

text \<open>
  The library, as the class uses it. Each call may change the world and either returns
  a value or raises. \<open>from_documents\<close> and \<open>load_index_from_storage\<close> read the active
  settings. \<open>path_exists\<close> is \<open>os.path.exists\<close> on a \<open>str\<close>, which only reads.
\<close>

record ('llm, 'emb, 'idx, 'sc, 'w) library =
  LlamaCPP :: "string \<Rightarrow> int \<Rightarrow> bool \<Rightarrow> 'w \<Rightarrow> (py_error + 'llm) \<times> 'w"
  HuggingFaceEmbedding :: "string \<Rightarrow> 'w \<Rightarrow> (py_error + 'emb) \<times> 'w"
  from_documents ::
    "('llm, 'emb) settings \<Rightarrow> document list \<Rightarrow> bool \<Rightarrow> 'w \<Rightarrow> (py_error + 'idx) \<times> 'w"
  storage_context_persist :: "'idx \<Rightarrow> string \<Rightarrow> 'w \<Rightarrow> (py_error + unit) \<times> 'w"
  path_exists :: "string \<Rightarrow> 'w \<Rightarrow> bool"
  from_defaults :: "string option \<Rightarrow> 'w \<Rightarrow> (py_error + 'sc) \<times> 'w"
  load_index_from_storage ::
    "('llm, 'emb) settings \<Rightarrow> 'sc \<Rightarrow> 'w \<Rightarrow> (py_error + 'idx) \<times> 'w"

definition emit :: "event \<Rightarrow> ('llm, 'emb, 'w) state \<Rightarrow> ('llm, 'emb, 'w) state" where
  "emit e s = s\<lparr>trace := trace s @ [e]\<rparr>"

text \<open>A library call: recorded, then run on the world.\<close>

definition call ::
  "event \<Rightarrow> ('w \<Rightarrow> (py_error + 'a) \<times> 'w) \<Rightarrow> ('llm, 'emb, 'w) state
     \<Rightarrow> (py_error + 'a) \<times> ('llm, 'emb, 'w) state" where
  "call e f s = (case f (world s) of (r, w) \<Rightarrow> (r, (emit e s)\<lparr>world := w\<rparr>))"

text \<open>The calls made between an earlier state and a later one.\<close>

definition new_events :: "('llm, 'emb, 'w) state \<Rightarrow> ('llm, 'emb, 'w) state \<Rightarrow> event list" where
  "new_events s s' = drop (length (trace s)) (trace s')"

text \<open>
  \<open>os.path.exists(path)\<close>: \<open>os.stat(None)\<close> raises \<open>TypeError\<close>, which \<open>exists\<close> does
  not catch (it catches \<open>OSError\<close> and \<open>ValueError\<close> only).
\<close>

definition os_path_exists ::
  "('llm, 'emb, 'idx, 'sc, 'w) library \<Rightarrow> string option \<Rightarrow> ('llm, 'emb, 'w) state
     \<Rightarrow> (py_error + bool) \<times> ('llm, 'emb, 'w) state" where
  "os_path_exists lib path s =
     (case path of
        None \<Rightarrow>
          (Inl (TypeError ''stat: path should be string, bytes, os.PathLike or integer, not NoneType''),
           emit (Call_exists None) s)
      | Some p \<Rightarrow> (Inr (path_exists lib p (world s)), emit (Call_exists (Some p)) s))"

section \<open>The class Index\<close>

definition logging_DEBUG :: int where
  "logging_DEBUG = 10"

definition LLM_DEFAULT :: string where
  "LLM_DEFAULT = ''DEFAULT''"

definition LLAMA2_7B_Q4 :: string where
  "LLAMA2_7B_Q4 = ''LLAMA2-7B_Q4''"

definition LLAMA2_7B_Q4_URL :: string where
  "LLAMA2_7B_Q4_URL =
     ''https://huggingface.co/TheBloke/Llama-2-7B-Chat-GGUF/resolve/main/llama-2-7b-chat.Q4_K_M.gguf''"

definition LLAMA2_7B_Q5 :: string where
  "LLAMA2_7B_Q5 = ''LLAMA2-7B_Q5''"

definition LLAMA2_7B_Q5_URL :: string where
  "LLAMA2_7B_Q5_URL =
     ''https://huggingface.co/TheBloke/Llama-2-7B-Chat-GGUF/resolve/main/llama-2-7b-chat.Q5_K_M.gguf''"

definition LLAMA2_13B_Q4 :: string where
  "LLAMA2_13B_Q4 = ''LLAMA2-13B_Q4''"

definition LLAMA2_13B_Q4_URL :: string where
  "LLAMA2_13B_Q4_URL =
     ''https://huggingface.co/TheBloke/Llama-2-13B-chat-GGUF/resolve/main/llama-2-13b-chat.Q4_K_M.gguf''"

definition LLAMA2_13B_Q5 :: string where
  "LLAMA2_13B_Q5 = ''LLAMA2-13B_Q5''"

definition LLAMA2_13B_Q5_URL :: string where
  "LLAMA2_13B_Q5_URL =
     ''https://huggingface.co/TheBloke/Llama-2-13B-chat-GGUF/resolve/main/llama-2-13b-chat.Q5_K_M.gguf''"

definition MIXTRAL_7B_Q4 :: string where
  "MIXTRAL_7B_Q4 = ''MIXTRAL-7B_Q4''"

definition MIXTRAL_7B_Q4_URL :: string where
  "MIXTRAL_7B_Q4_URL =
     ''https://huggingface.co/TheBloke/Mixtral-8x7B-Instruct-v0.1-GGUF/resolve/main/mixtral-8x7b-instruct-v0.1.Q4_K_M.gguf''"

definition MIXTRAL_7B_Q5 :: string where
  "MIXTRAL_7B_Q5 = ''MIXTRAL-7B_Q5''"

definition MIXTRAL_7B_Q5_URL :: string where
  "MIXTRAL_7B_Q5_URL =
     ''https://huggingface.co/TheBloke/Mixtral-8x7B-Instruct-v0.1-GGUF/resolve/main/mixtral-8x7b-instruct-v0.1.Q5_K_M.gguf''"

text \<open>The attributes \<open>__init__\<close> sets on \<open>self\<close>.\<close>

record Index =
  verbose :: bool
  documents :: "document list option"
  storage_dir :: "string option"

text \<open>
  \<open>__get_llm_model(model_url, verbose)\<close>: one call of \<open>LlamaCPP\<close> with
  \<open>context_window=2048\<close>. The two prompt formatters it also passes are fixed functions
  of the library.
\<close>

definition get_llm_model ::
  "('llm, 'emb, 'idx, 'sc, 'w) library \<Rightarrow> string \<Rightarrow> bool \<Rightarrow> ('llm, 'emb, 'w) state
     \<Rightarrow> (py_error + 'llm) \<times> ('llm, 'emb, 'w) state" where
  "get_llm_model lib model_url verbose_flag =
     call (Call_LlamaCPP model_url 2048 verbose_flag) (LlamaCPP lib model_url 2048 verbose_flag)"

text \<open>
  A branch of the \<open>match\<close> for a quantized model: \<open>llm\<close> is the loaded model, and the
  local variable \<open>embed_model\<close> gets the name given.
\<close>

definition with_embed_model ::
  "string \<Rightarrow> (py_error + 'llm) \<times> ('llm, 'emb, 'w) state
     \<Rightarrow> (py_error + 'llm setting_value \<times> string) \<times> ('llm, 'emb, 'w) state" where
  "with_embed_model name r =
     (case r of
        (Inl e, s') \<Rightarrow> (Inl e, s')
      | (Inr m, s') \<Rightarrow> (Inr (Obj m, name), s'))"

text \<open>
  The end of \<open>__set_service_context\<close> (lines 76 to 78): the three assignments to
  \<open>Settings\<close>, in order. The embedding assigned is the object
  \<open>HuggingFaceEmbedding(model_name="BAAI/bge-small-en-v1.5")\<close>, built after \<open>Settings.llm\<close>
  is assigned; if building it raises, \<open>Settings.llm\<close> stays assigned.
\<close>

definition assign_settings ::
  "('llm, 'emb, 'idx, 'sc, 'w) library \<Rightarrow> 'llm setting_value \<Rightarrow> ('llm, 'emb, 'w) state
     \<Rightarrow> (py_error + unit) \<times> ('llm, 'emb, 'w) state" where
  "assign_settings lib llm_local s1 =
     (let s2 = s1\<lparr>Settings := (Settings s1)\<lparr>llm := Some llm_local\<rparr>\<rparr> in
      case call (Call_HuggingFaceEmbedding ''BAAI/bge-small-en-v1.5'')
             (HuggingFaceEmbedding lib ''BAAI/bge-small-en-v1.5'') s2 of
        (Inl e, s3) \<Rightarrow> (Inl e, s3)
      | (Inr emb, s3) \<Rightarrow>
          (let s4 = s3\<lparr>Settings := (Settings s3)\<lparr>embed_model := Some (Obj emb)\<rparr>\<rparr> in
           (Inr (), s4\<lparr>Settings := (Settings s4)\<lparr>chunk_size := Some 512\<rparr>\<rparr>)))"

text \<open>
  \<open>__set_service_context(model_type)\<close>. The \<open>match\<close> (lines 51 to 74) compares
  \<open>model_type\<close> with each label by \<open>==\<close>, in the order of the source, and binds the
  locals \<open>llm\<close> and \<open>embed_model\<close>, or raises. The assignments follow; they read the
  local \<open>llm\<close> and do not read the local \<open>embed_model\<close>.
\<close>

definition set_service_context ::
  "('llm, 'emb, 'idx, 'sc, 'w) library \<Rightarrow> Index \<Rightarrow> string option \<Rightarrow> ('llm, 'emb, 'w) state
     \<Rightarrow> (py_error + unit) \<times> ('llm, 'emb, 'w) state" where
  "set_service_context lib self model_type s =
     (case
        (if model_type = Some LLM_DEFAULT then (Inr (Str ''default'', ''default''), s)
         else if model_type = Some LLAMA2_7B_Q4 then
           with_embed_model ''local'' (get_llm_model lib LLAMA2_7B_Q4_URL (verbose self) s)
         else if model_type = Some LLAMA2_7B_Q5 then
           with_embed_model ''local'' (get_llm_model lib LLAMA2_7B_Q5_URL (verbose self) s)
         else if model_type = Some LLAMA2_13B_Q4 then
           with_embed_model ''local'' (get_llm_model lib LLAMA2_13B_Q4_URL (verbose self) s)
         else if model_type = Some LLAMA2_13B_Q5 then
           with_embed_model ''local'' (get_llm_model lib LLAMA2_13B_Q5_URL (verbose self) s)
         else if model_type = Some MIXTRAL_7B_Q4 then
           with_embed_model ''local'' (get_llm_model lib MIXTRAL_7B_Q4_URL (verbose self) s)
         else if model_type = Some MIXTRAL_7B_Q5 then
           with_embed_model ''local'' (get_llm_model lib MIXTRAL_7B_Q5_URL (verbose self) s)
         else
           (Inl (TypeError (''LLM model type '' @ py_str model_type @ '' not supported'')), s))
      of
        (Inl e, s1) \<Rightarrow> (Inl e, s1)
      | (Inr (llm_local, embed_model_local), s1) \<Rightarrow> assign_settings lib llm_local s1)"

text \<open>
  \<open>Index(storage_dir, documents=None, model_type=None)\<close>: \<open>verbose\<close> is read from the
  logger's level once, here.
\<close>

definition Index_init ::
  "('llm, 'emb, 'idx, 'sc, 'w) library \<Rightarrow> string option \<Rightarrow> document list option \<Rightarrow> string option
     \<Rightarrow> ('llm, 'emb, 'w) state \<Rightarrow> (py_error + Index) \<times> ('llm, 'emb, 'w) state" where
  "Index_init lib dir docs model_type s =
     (let self = \<lparr>verbose = (logger_level s = logging_DEBUG), documents = docs, storage_dir = dir\<rparr> in
      case set_service_context lib self model_type s of
        (Inl e, s') \<Rightarrow> (Inl e, s')
      | (Inr u, s') \<Rightarrow> (Inr self, s'))"

text \<open>\<open>persist()\<close>: the result is the index built, or \<open>None\<close>.\<close>

definition persist ::
  "('llm, 'emb, 'idx, 'sc, 'w) library \<Rightarrow> Index \<Rightarrow> ('llm, 'emb, 'w) state
     \<Rightarrow> (py_error + 'idx option) \<times> ('llm, 'emb, 'w) state" where
  "persist lib self s =
     (if documents self \<noteq> None \<and> storage_dir self \<noteq> None then
        (let s1 = emit (LogInfo ''Building index over the documents ...'') s in
         case call (Call_from_documents (the (documents self)) (verbose self))
                (from_documents lib (Settings s1) (the (documents self)) (verbose self)) s1 of
           (Inl e, s2) \<Rightarrow> (Inl e, s2)
         | (Inr index, s2) \<Rightarrow>
             (let s3 = emit (LogInfo (''Persisting index to '' @ py_str (storage_dir self)
                                        @ '' storage ...'')) s2 in
              case call (Call_persist (the (storage_dir self)))
                     (storage_context_persist lib index (the (storage_dir self))) s3 of
                (Inl e, s4) \<Rightarrow> (Inl e, s4)
              | (Inr u, s4) \<Rightarrow> (Inr (Some index), s4)))
      else
        (Inr None,
         emit (LogInfo ''Documents or index storage path not provided, skipping index creation'') s))"

text \<open>\<open>__storage_exists()\<close>.\<close>

definition storage_exists ::
  "('llm, 'emb, 'idx, 'sc, 'w) library \<Rightarrow> Index \<Rightarrow> ('llm, 'emb, 'w) state
     \<Rightarrow> (py_error + bool) \<times> ('llm, 'emb, 'w) state" where
  "storage_exists lib self s = os_path_exists lib (storage_dir self) s"

text \<open>\<open>load()\<close>: the result is the index read from storage, or \<open>None\<close>.\<close>

definition load ::
  "('llm, 'emb, 'idx, 'sc, 'w) library \<Rightarrow> Index \<Rightarrow> ('llm, 'emb, 'w) state
     \<Rightarrow> (py_error + 'idx option) \<times> ('llm, 'emb, 'w) state" where
  "load lib self s =
     (case storage_exists lib self s of
        (Inl e, s1) \<Rightarrow> (Inl e, s1)
      | (Inr True, s1) \<Rightarrow>
          (let s2 = emit (LogInfo (''Loading existing index from '' @ py_str (storage_dir self)
                                     @ '' storage ...'')) s1 in
           case call (Call_from_defaults (storage_dir self))
                  (from_defaults lib (storage_dir self)) s2 of
             (Inl e, s3) \<Rightarrow> (Inl e, s3)
           | (Inr storage_context, s3) \<Rightarrow>
               (case call Call_load_index_from_storage
                       (load_index_from_storage lib (Settings s3) storage_context) s3 of
                  (Inl e, s4) \<Rightarrow> (Inl e, s4)
                | (Inr index, s4) \<Rightarrow> (Inr (Some index), s4)))
      | (Inr False, s1) \<Rightarrow>
          (Inr None,
           emit (LogInfo (''No storage found at '' @ py_str (storage_dir self)
                            @ '' from which to load the index'')) s1))"

section \<open>Vocabulary of the properties\<close>

text \<open>The labels the \<open>match\<close> has a case for.\<close>

definition quantized_labels :: "string list" where
  "quantized_labels =
     [LLAMA2_7B_Q4, LLAMA2_7B_Q5, LLAMA2_13B_Q4, LLAMA2_13B_Q5, MIXTRAL_7B_Q4, MIXTRAL_7B_Q5]"

text \<open>The quantized labels with the URL the \<open>match\<close> passes for each.\<close>

definition quantized_models :: "(string \<times> string) list" where
  "quantized_models =
     [(LLAMA2_7B_Q4, LLAMA2_7B_Q4_URL), (LLAMA2_7B_Q5, LLAMA2_7B_Q5_URL),
      (LLAMA2_13B_Q4, LLAMA2_13B_Q4_URL), (LLAMA2_13B_Q5, LLAMA2_13B_Q5_URL),
      (MIXTRAL_7B_Q4, MIXTRAL_7B_Q4_URL), (MIXTRAL_7B_Q5, MIXTRAL_7B_Q5_URL)]"

definition recognized_labels :: "string list" where
  "recognized_labels = LLM_DEFAULT # quantized_labels"


subsection \<open>A small library to run the class on\<close>

text \<open>
  An in-memory library: the world maps a directory to the documents stored in it, an
  index is the list of its documents, a loaded model is the triple of its arguments, and
  a query returns the documents that start with the query string.
\<close>

definition sim_library ::
  "(string \<times> int \<times> bool, string, document list, string, string \<Rightarrow> document list option) library"
  where
  "sim_library =
     \<lparr>LlamaCPP = (\<lambda>url n v w. (Inr (url, n, v), w)),
      HuggingFaceEmbedding = (\<lambda>name w. (Inr name, w)),
      from_documents = (\<lambda>st ds p w. (Inr ds, w)),
      storage_context_persist = (\<lambda>idx d w. (Inr (), w(d \<mapsto> idx))),
      path_exists = (\<lambda>d w. w d \<noteq> None),
      from_defaults =
        (\<lambda>d w. case d of
                  None \<Rightarrow> (Inl (LibraryError ''no persist_dir''), w)
                | Some p \<Rightarrow> (Inr p, w)),
      load_index_from_storage =
        (\<lambda>st sc w. case w sc of
                      None \<Rightarrow> (Inl (LibraryError ''No index in storage context''), w)
                    | Some ds \<Rightarrow> (Inr ds, w))\<rparr>"


text \<open>A fresh process: nothing assigned, the logger at \<open>DEBUG\<close>, no directory on disk.\<close>

definition sim_state ::
  "(string \<times> int \<times> bool, string, string \<Rightarrow> document list option) state" where
  "sim_state = \<lparr>Settings = \<lparr>llm = None, embed_model = None, chunk_size = None\<rparr>,
                logger_level = 10, trace = [], world = Map.empty\<rparr>"

text \<open>The same library with no network: loading a model always raises.\<close>

definition offline_library ::
  "(string \<times> int \<times> bool, string, document list, string, string \<Rightarrow> document list option) library"
  where
  "offline_library =
     sim_library\<lparr>LlamaCPP := (\<lambda>url n v w. (Inl (LibraryError ''model download failed''), w))\<rparr>"

section \<open>Facts about the operations\<close>

lemmas label_defs = LLM_DEFAULT_def LLAMA2_7B_Q4_def LLAMA2_7B_Q5_def LLAMA2_13B_Q4_def
  LLAMA2_13B_Q5_def MIXTRAL_7B_Q4_def MIXTRAL_7B_Q5_def

lemmas sim_defs = sim_library_def sim_state_def

lemmas op_defs = Index_init_def set_service_context_def assign_settings_def with_embed_model_def
  get_llm_model_def call_def emit_def new_events_def persist_def load_def storage_exists_def
  os_path_exists_def

subsection \<open>The match on the model type\<close>

lemma recognized_cases:
  "mt \<in> set recognized_labels \<longleftrightarrow> mt = LLM_DEFAULT \<or> mt \<in> set quantized_labels"
  by (simp add: recognized_labels_def)

lemma ssc_unrecognized:
  "model_type \<notin> Some ` set recognized_labels \<Longrightarrow>
   set_service_context lib self model_type s =
     (Inl (TypeError (''LLM model type '' @ py_str model_type @ '' not supported'')), s)"
  by (simp add: set_service_context_def recognized_labels_def quantized_labels_def image_iff)

lemma ssc_default:
  "set_service_context lib self (Some LLM_DEFAULT) s = assign_settings lib (Str ''default'') s"
  by (simp add: set_service_context_def)

lemma ssc_url:
  assumes "set_service_context lib self (Some mt) s =
     (case with_embed_model ''local'' (get_llm_model lib url (verbose self) s) of
        (Inl e, s1) \<Rightarrow> (Inl e, s1)
      | (Inr (llm_local, embed_model_local), s1) \<Rightarrow> assign_settings lib llm_local s1)"
  shows "set_service_context lib self (Some mt) s =
     (case get_llm_model lib url (verbose self) s of
        (Inl e, s1) \<Rightarrow> (Inl e, s1)
      | (Inr m, s1) \<Rightarrow> assign_settings lib (Obj m) s1)"
  using assms by (simp add: with_embed_model_def split: prod.splits sum.splits)

lemma ssc_quantized:
  assumes "mt \<in> set quantized_labels"
  shows "\<exists>url. set_service_context lib self (Some mt) s =
     (case get_llm_model lib url (verbose self) s of
        (Inl e, s1) \<Rightarrow> (Inl e, s1)
      | (Inr m, s1) \<Rightarrow> assign_settings lib (Obj m) s1)"
proof -
  from assms consider "mt = LLAMA2_7B_Q4" | "mt = LLAMA2_7B_Q5" | "mt = LLAMA2_13B_Q4"
    | "mt = LLAMA2_13B_Q5" | "mt = MIXTRAL_7B_Q4" | "mt = MIXTRAL_7B_Q5"
    by (auto simp: quantized_labels_def)
  then show ?thesis
  proof cases
    case 1
    show ?thesis
      by (rule exI [of _ LLAMA2_7B_Q4_URL], rule ssc_url)
        (simp add: 1 set_service_context_def label_defs)
  next
    case 2
    show ?thesis
      by (rule exI [of _ LLAMA2_7B_Q5_URL], rule ssc_url)
        (simp add: 2 set_service_context_def label_defs)
  next
    case 3
    show ?thesis
      by (rule exI [of _ LLAMA2_13B_Q4_URL], rule ssc_url)
        (simp add: 3 set_service_context_def label_defs)
  next
    case 4
    show ?thesis
      by (rule exI [of _ LLAMA2_13B_Q5_URL], rule ssc_url)
        (simp add: 4 set_service_context_def label_defs)
  next
    case 5
    show ?thesis
      by (rule exI [of _ MIXTRAL_7B_Q4_URL], rule ssc_url)
        (simp add: 5 set_service_context_def label_defs)
  next
    case 6
    show ?thesis
      by (rule exI [of _ MIXTRAL_7B_Q5_URL], rule ssc_url)
        (simp add: 6 set_service_context_def label_defs)
  qed
qed

lemma quantized_labels_models: "quantized_labels = map fst quantized_models"
  by (simp add: quantized_labels_def quantized_models_def)

lemma recognized_models:
  "mt \<in> set recognized_labels \<longleftrightarrow> mt = LLM_DEFAULT \<or> mt \<in> fst ` set quantized_models"
  by (simp add: recognized_labels_def quantized_labels_models)

lemma ssc_model:
  assumes "(mt, url) \<in> set quantized_models"
  shows "set_service_context lib self (Some mt) s =
     (case get_llm_model lib url (verbose self) s of
        (Inl e, s1) \<Rightarrow> (Inl e, s1)
      | (Inr m, s1) \<Rightarrow> assign_settings lib (Obj m) s1)"
proof -
  from assms consider "mt = LLAMA2_7B_Q4 \<and> url = LLAMA2_7B_Q4_URL"
    | "mt = LLAMA2_7B_Q5 \<and> url = LLAMA2_7B_Q5_URL"
    | "mt = LLAMA2_13B_Q4 \<and> url = LLAMA2_13B_Q4_URL"
    | "mt = LLAMA2_13B_Q5 \<and> url = LLAMA2_13B_Q5_URL"
    | "mt = MIXTRAL_7B_Q4 \<and> url = MIXTRAL_7B_Q4_URL"
    | "mt = MIXTRAL_7B_Q5 \<and> url = MIXTRAL_7B_Q5_URL"
    by (auto simp: quantized_models_def)
  then show ?thesis
  proof cases
    case 1
    show ?thesis by (rule ssc_url) (simp add: 1 set_service_context_def label_defs)
  next
    case 2
    show ?thesis by (rule ssc_url) (simp add: 2 set_service_context_def label_defs)
  next
    case 3
    show ?thesis by (rule ssc_url) (simp add: 3 set_service_context_def label_defs)
  next
    case 4
    show ?thesis by (rule ssc_url) (simp add: 4 set_service_context_def label_defs)
  next
    case 5
    show ?thesis by (rule ssc_url) (simp add: 5 set_service_context_def label_defs)
  next
    case 6
    show ?thesis by (rule ssc_url) (simp add: 6 set_service_context_def label_defs)
  qed
qed

subsection \<open>The assignments and the model load\<close>

lemma assign_settings_success:
  assumes "assign_settings lib v s1 = (Inr u, s')"
  shows "\<exists>emb w'. HuggingFaceEmbedding lib ''BAAI/bge-small-en-v1.5'' (world s1) = (Inr emb, w') \<and>
           Settings s' = (Settings s1)\<lparr>llm := Some v, embed_model := Some (Obj emb),
                                        chunk_size := Some 512\<rparr>"
  using assms
  by (auto simp: assign_settings_def call_def emit_def Let_def split: prod.splits sum.splits)

lemma ssc_success:
  assumes "set_service_context lib self model_type s = (Inr u, s')"
  shows "\<exists>v emb w w'. HuggingFaceEmbedding lib ''BAAI/bge-small-en-v1.5'' w = (Inr emb, w') \<and>
           llm (Settings s') = Some v \<and> embed_model (Settings s') = Some (Obj emb) \<and>
           chunk_size (Settings s') = Some 512"
proof (cases "model_type \<in> Some ` set recognized_labels")
  case False
  from ssc_unrecognized [OF False, of lib self s] assms show ?thesis by simp
next
  case True
  then obtain mt where mt: "model_type = Some mt" "mt \<in> set recognized_labels" by auto
  from mt(2) consider "mt = LLM_DEFAULT" | "mt \<in> set quantized_labels"
    by (auto simp: recognized_cases)
  then show ?thesis
  proof cases
    case 1
    with assms mt(1) have "assign_settings lib (Str ''default'') s = (Inr u, s')"
      by (simp add: ssc_default)
    from assign_settings_success [OF this] show ?thesis by fastforce
  next
    case 2
    from ssc_quantized [OF 2, of lib self s] obtain url where
      e: "set_service_context lib self (Some mt) s =
           (case get_llm_model lib url (verbose self) s of
              (Inl e, s1) \<Rightarrow> (Inl e, s1)
            | (Inr m, s1) \<Rightarrow> assign_settings lib (Obj m) s1)" by blast
    with assms mt(1) obtain m s1 where "assign_settings lib (Obj m) s1 = (Inr u, s')"
      by (auto split: prod.splits sum.splits)
    from assign_settings_success [OF this] show ?thesis by fastforce
  qed
qed

subsection \<open>The constructor\<close>

lemma init_success:
  assumes "Index_init lib dir docs model_type s = (Inr self, s')"
  shows "self = \<lparr>verbose = (logger_level s = logging_DEBUG), documents = docs, storage_dir = dir\<rparr>"
    and "\<exists>u. set_service_context lib self model_type s = (Inr u, s')"
  using assms by (auto simp: Index_init_def Let_def split: prod.splits sum.splits)

lemma init_default_ok:
  assumes "HuggingFaceEmbedding lib ''BAAI/bge-small-en-v1.5'' (world s) = (Inr emb, w)"
  shows "Index_init lib dir docs (Some LLM_DEFAULT) s =
     (Inr \<lparr>verbose = (logger_level s = logging_DEBUG), documents = docs, storage_dir = dir\<rparr>,
      s\<lparr>Settings := (Settings s)\<lparr>llm := Some (Str ''default''), embed_model := Some (Obj emb),
                                 chunk_size := Some 512\<rparr>,
        trace := trace s @ [Call_HuggingFaceEmbedding ''BAAI/bge-small-en-v1.5''],
        world := w\<rparr>)"
  using assms
  by (simp add: Index_init_def ssc_default assign_settings_def call_def emit_def Let_def)

lemma init_model_raises:
  assumes "(mt, url) \<in> set quantized_models"
    "LlamaCPP lib url 2048 (logger_level s = logging_DEBUG) (world s) = (Inl e, w1)"
  shows "Index_init lib dir docs (Some mt) s =
     (Inl e,
      s\<lparr>trace := trace s @ [Call_LlamaCPP url 2048 (logger_level s = logging_DEBUG)],
        world := w1\<rparr>)"
  using assms(2)
  by (simp add: Index_init_def ssc_model [OF assms(1)] get_llm_model_def call_def emit_def Let_def)

lemma init_model_llm:
  assumes "(mt, url) \<in> set quantized_models"
    "LlamaCPP lib url 2048 (logger_level s = logging_DEBUG) (world s) = (Inr m, w1)"
  shows "llm (Settings (snd (Index_init lib dir docs (Some mt) s))) = Some (Obj m)"
  using assms(2)
  by (simp add: Index_init_def ssc_model [OF assms(1)] get_llm_model_def assign_settings_def
      call_def emit_def Let_def split: prod.splits sum.splits)

lemma init_model_ok:
  assumes "(mt, url) \<in> set quantized_models"
    "LlamaCPP lib url 2048 (logger_level s = logging_DEBUG) (world s) = (Inr m, w1)"
    "HuggingFaceEmbedding lib ''BAAI/bge-small-en-v1.5'' w1 = (Inr emb, w2)"
  shows "Index_init lib dir docs (Some mt) s =
     (Inr \<lparr>verbose = (logger_level s = logging_DEBUG), documents = docs, storage_dir = dir\<rparr>,
      s\<lparr>Settings := (Settings s)\<lparr>llm := Some (Obj m), embed_model := Some (Obj emb),
                                 chunk_size := Some 512\<rparr>,
        trace := trace s @ [Call_LlamaCPP url 2048 (logger_level s = logging_DEBUG),
                            Call_HuggingFaceEmbedding ''BAAI/bge-small-en-v1.5''],
        world := w2\<rparr>)"
  using assms(2,3)
  by (simp add: Index_init_def ssc_model [OF assms(1)] get_llm_model_def assign_settings_def
      call_def emit_def Let_def)

lemma init_model_trace:
  assumes "(mt, url) \<in> set quantized_models"
  shows "take 1 (new_events s (snd (Index_init lib dir docs (Some mt) s))) =
         [Call_LlamaCPP url 2048 (logger_level s = logging_DEBUG)]"
  by (simp add: Index_init_def ssc_model [OF assms] get_llm_model_def assign_settings_def
      new_events_def call_def emit_def Let_def split: prod.splits sum.splits)

subsection \<open>persist and load\<close>

lemma persist_skip:
  assumes "documents self = None \<or> storage_dir self = None"
  shows "persist lib self s =
     (Inr None,
      s\<lparr>trace := trace s @
           [LogInfo ''Documents or index storage path not provided, skipping index creation'']\<rparr>)"
  using assms by (auto simp: persist_def emit_def)

lemma persist_build_trace:
  assumes "documents self = Some ds" "storage_dir self = Some d"
  shows "take 2 (new_events s (snd (persist lib self s))) =
     [LogInfo ''Building index over the documents ...'', Call_from_documents ds (verbose self)]"
  using assms
  by (simp add: persist_def new_events_def call_def emit_def Let_def split: prod.splits sum.splits)

lemma persist_build_result:
  assumes "documents self = Some ds" "storage_dir self = Some d"
  shows "fst (persist lib self s) =
     (case from_documents lib (Settings s) ds (verbose self) (world s) of
        (Inl e, w) \<Rightarrow> Inl e
      | (Inr idx, w0) \<Rightarrow>
          (case storage_context_persist lib idx d w0 of
             (Inl e, w) \<Rightarrow> Inl e
           | (Inr u, w) \<Rightarrow> Inr (Some idx)))"
  using assms
  by (simp add: persist_def call_def emit_def Let_def split: prod.splits sum.splits)


lemma load_absent:
  assumes "storage_dir self = Some d" "\<not> path_exists lib d (world s)"
  shows "load lib self s =
     (Inr None,
      s\<lparr>trace := trace s @
           [Call_exists (Some d),
            LogInfo (''No storage found at '' @ d @ '' from which to load the index'')]\<rparr>)"
  using assms by (simp add: load_def storage_exists_def os_path_exists_def emit_def)

lemma load_present:
  assumes "storage_dir self = Some d" "path_exists lib d (world s)"
  shows "load lib self s =
     (let s2 = s\<lparr>trace := trace s @
                  [Call_exists (Some d),
                   LogInfo (''Loading existing index from '' @ d @ '' storage ...'')]\<rparr> in
      case call (Call_from_defaults (Some d)) (from_defaults lib (Some d)) s2 of
        (Inl e, s3) \<Rightarrow> (Inl e, s3)
      | (Inr storage_context, s3) \<Rightarrow>
          (case call Call_load_index_from_storage
                  (load_index_from_storage lib (Settings s3) storage_context) s3 of
             (Inl e, s4) \<Rightarrow> (Inl e, s4)
           | (Inr index, s4) \<Rightarrow> (Inr (Some index), s4)))"
  using assms by (simp add: load_def storage_exists_def os_path_exists_def emit_def Let_def)

lemma load_present_trace:
  assumes "storage_dir self = Some d" "path_exists lib d (world s)"
  shows "take 3 (new_events s (snd (load lib self s))) =
     [Call_exists (Some d), LogInfo (''Loading existing index from '' @ d @ '' storage ...''),
      Call_from_defaults (Some d)]"
  by (simp add: load_present [OF assms] new_events_def call_def emit_def Let_def
      split: prod.splits sum.splits)

lemma load_present_result:
  assumes "storage_dir self = Some d" "path_exists lib d (world s)"
    "from_defaults lib (Some d) (world s) = (Inr sc, w1)"
    "load_index_from_storage lib (Settings s) sc w1 = (Inr idx, w2)"
  shows "load lib self s =
     (Inr (Some idx),
      s\<lparr>trace := trace s @
           [Call_exists (Some d), LogInfo (''Loading existing index from '' @ d @ '' storage ...''),
            Call_from_defaults (Some d), Call_load_index_from_storage],
        world := w2\<rparr>)"
  by (simp add: load_present [OF assms(1,2)] assms(3,4) call_def emit_def Let_def)

section \<open>Construction\<close>

text \<open>
  C1. The claim: construction with the model-type label omitted succeeds with the
  library's default configuration. The code: the \<open>match\<close> has no case for \<open>None\<close>, the
  default of the parameter, so for every storage path, every document collection and
  every state, construction without a label raises
  \<open>TypeError("LLM model type None not supported")\<close> before anything is assigned or
  called.
\<close>

theorem init_without_model_type_raises:
  "Index_init lib dir docs None s = (Inl (TypeError ''LLM model type None not supported''), s)"
  by (simp add: Index_init_def set_service_context_def LLM_DEFAULT_def)

text \<open>
  C2. The claim: the embedding configuration written at construction depends on the
  label, the default backend for \<open>DEFAULT\<close> and a local one for the quantized models.
  The code: whatever the label, a construction that succeeds has assigned to
  \<open>Settings.embed_model\<close> the object returned by
  \<open>HuggingFaceEmbedding(model_name="BAAI/bge-small-en-v1.5")\<close>, never the name bound
  in the \<open>match\<close>.
\<close>

theorem embed_model_same_for_every_label:
  assumes "Index_init lib dir docs model_type s = (Inr self, s')"
  shows "\<exists>emb w w'. HuggingFaceEmbedding lib ''BAAI/bge-small-en-v1.5'' w = (Inr emb, w') \<and>
           embed_model (Settings s') = Some (Obj emb)"
proof -
  from init_success(2) [OF assms] obtain u where
    "set_service_context lib self model_type s = (Inr u, s')" by blast
  from ssc_success [OF this] show ?thesis by fastforce
qed

theorem embed_model_same_for_every_label_witness:
  "(\<exists>self s'. Index_init sim_library (Some ''storage'') None (Some ''DEFAULT'') sim_state
       = (Inr self, s')) \<and>
   (\<exists>emb w w'. HuggingFaceEmbedding sim_library ''BAAI/bge-small-en-v1.5'' w = (Inr emb, w') \<and>
      embed_model (Settings (snd (Index_init sim_library (Some ''storage'') None (Some ''DEFAULT'')
                                    sim_state)))
        = Some (Obj emb))"
proof -
  obtain self s' where h:
    "Index_init sim_library (Some ''storage'') None (Some ''DEFAULT'') sim_state = (Inr self, s')"
    by (simp add: op_defs sim_defs label_defs)
  from embed_model_same_for_every_label [OF h] h show ?thesis by simp
qed

text \<open>
  C3. The recognized labels are \<open>DEFAULT\<close> and the six quantized models. For each of them,
  when the library calls the constructor makes do not raise (for \<open>DEFAULT\<close> the
  embedding load; for a quantized model the model load from that label's URL with context
  window 2048 and the verbosity flag, then the embedding load in the world the model load
  left), construction succeeds, returns the object, and both the language model and the
  embedding model of \<open>Settings\<close> are assigned (to what these calls returned). For every
  label outside the set (\<open>None\<close> included) construction raises a \<open>TypeError\<close> whose
  message contains the label, and nothing has been assigned or called.
\<close>

theorem init_recognized_labels:
  "(mt \<in> set recognized_labels \<longleftrightarrow> mt = LLM_DEFAULT \<or> mt \<in> fst ` set quantized_models) \<and>
   (HuggingFaceEmbedding lib ''BAAI/bge-small-en-v1.5'' (world s) = (Inr emb, w) \<longrightarrow>
      Index_init lib dir docs (Some LLM_DEFAULT) s =
        (Inr \<lparr>verbose = (logger_level s = logging_DEBUG), documents = docs, storage_dir = dir\<rparr>,
         s\<lparr>Settings := (Settings s)\<lparr>llm := Some (Str ''default''), embed_model := Some (Obj emb),
                                    chunk_size := Some 512\<rparr>,
           trace := trace s @ [Call_HuggingFaceEmbedding ''BAAI/bge-small-en-v1.5''],
           world := w\<rparr>)) \<and>
   ((q, url) \<in> set quantized_models \<and>
    LlamaCPP lib url 2048 (logger_level s = logging_DEBUG) (world s) = (Inr m, w1) \<and>
    HuggingFaceEmbedding lib ''BAAI/bge-small-en-v1.5'' w1 = (Inr emb', w2) \<longrightarrow>
      Index_init lib dir docs (Some q) s =
        (Inr \<lparr>verbose = (logger_level s = logging_DEBUG), documents = docs, storage_dir = dir\<rparr>,
         s\<lparr>Settings := (Settings s)\<lparr>llm := Some (Obj m), embed_model := Some (Obj emb'),
                                    chunk_size := Some 512\<rparr>,
           trace := trace s @ [Call_LlamaCPP url 2048 (logger_level s = logging_DEBUG),
                               Call_HuggingFaceEmbedding ''BAAI/bge-small-en-v1.5''],
           world := w2\<rparr>)) \<and>
   (model_type \<notin> Some ` set recognized_labels \<longrightarrow>
      Index_init lib dir docs model_type s =
        (Inl (TypeError (''LLM model type '' @ py_str model_type @ '' not supported'')), s))"
proof (intro conjI)
  show "mt \<in> set recognized_labels \<longleftrightarrow> mt = LLM_DEFAULT \<or> mt \<in> fst ` set quantized_models"
    by (rule recognized_models)
  show "HuggingFaceEmbedding lib ''BAAI/bge-small-en-v1.5'' (world s) = (Inr emb, w) \<longrightarrow>
      Index_init lib dir docs (Some LLM_DEFAULT) s =
        (Inr \<lparr>verbose = (logger_level s = logging_DEBUG), documents = docs, storage_dir = dir\<rparr>,
         s\<lparr>Settings := (Settings s)\<lparr>llm := Some (Str ''default''), embed_model := Some (Obj emb),
                                    chunk_size := Some 512\<rparr>,
           trace := trace s @ [Call_HuggingFaceEmbedding ''BAAI/bge-small-en-v1.5''],
           world := w\<rparr>)"
    by (rule impI) (rule init_default_ok)
  show "(q, url) \<in> set quantized_models \<and>
    LlamaCPP lib url 2048 (logger_level s = logging_DEBUG) (world s) = (Inr m, w1) \<and>
    HuggingFaceEmbedding lib ''BAAI/bge-small-en-v1.5'' w1 = (Inr emb', w2) \<longrightarrow>
      Index_init lib dir docs (Some q) s =
        (Inr \<lparr>verbose = (logger_level s = logging_DEBUG), documents = docs, storage_dir = dir\<rparr>,
         s\<lparr>Settings := (Settings s)\<lparr>llm := Some (Obj m), embed_model := Some (Obj emb'),
                                    chunk_size := Some 512\<rparr>,
           trace := trace s @ [Call_LlamaCPP url 2048 (logger_level s = logging_DEBUG),
                               Call_HuggingFaceEmbedding ''BAAI/bge-small-en-v1.5''],
           world := w2\<rparr>)"
  proof (rule impI, elim conjE)
    assume "(q, url) \<in> set quantized_models"
      and "LlamaCPP lib url 2048 (logger_level s = logging_DEBUG) (world s) = (Inr m, w1)"
      and "HuggingFaceEmbedding lib ''BAAI/bge-small-en-v1.5'' w1 = (Inr emb', w2)"
    then show "Index_init lib dir docs (Some q) s =
        (Inr \<lparr>verbose = (logger_level s = logging_DEBUG), documents = docs, storage_dir = dir\<rparr>,
         s\<lparr>Settings := (Settings s)\<lparr>llm := Some (Obj m), embed_model := Some (Obj emb'),
                                    chunk_size := Some 512\<rparr>,
           trace := trace s @ [Call_LlamaCPP url 2048 (logger_level s = logging_DEBUG),
                               Call_HuggingFaceEmbedding ''BAAI/bge-small-en-v1.5''],
           world := w2\<rparr>)"
      by (rule init_model_ok)
  qed
  show "model_type \<notin> Some ` set recognized_labels \<longrightarrow>
      Index_init lib dir docs model_type s =
        (Inl (TypeError (''LLM model type '' @ py_str model_type @ '' not supported'')), s)"
    by (simp add: Index_init_def ssc_unrecognized)
qed

theorem init_recognized_labels_witness:
  "LLM_DEFAULT \<in> set recognized_labels \<and> MIXTRAL_7B_Q5 \<in> set recognized_labels \<and>
   fst (Index_init sim_library (Some ''storage'') None (Some LLM_DEFAULT) sim_state) =
     Inr \<lparr>verbose = True, documents = None, storage_dir = Some ''storage''\<rparr> \<and>
   Settings (snd (Index_init sim_library (Some ''storage'') None (Some LLM_DEFAULT) sim_state)) =
     \<lparr>llm = Some (Str ''default''), embed_model = Some (Obj ''BAAI/bge-small-en-v1.5''),
      chunk_size = Some 512\<rparr> \<and>
   fst (Index_init sim_library (Some ''storage'') None (Some MIXTRAL_7B_Q5) sim_state) =
     Inr \<lparr>verbose = True, documents = None, storage_dir = Some ''storage''\<rparr> \<and>
   Settings (snd (Index_init sim_library (Some ''storage'') None (Some MIXTRAL_7B_Q5) sim_state)) =
     \<lparr>llm = Some (Obj (MIXTRAL_7B_Q5_URL, 2048, True)),
      embed_model = Some (Obj ''BAAI/bge-small-en-v1.5''), chunk_size = Some 512\<rparr> \<and>
   Some ''GPT-4'' \<notin> Some ` set recognized_labels \<and>
   Index_init sim_library (Some ''storage'') None (Some ''GPT-4'') sim_state =
     (Inl (TypeError ''LLM model type GPT-4 not supported''), sim_state)"
proof -
  have l: "(logger_level sim_state = logging_DEBUG) = True"
    by (simp add: sim_state_def logging_DEBUG_def)
  have q: "(MIXTRAL_7B_Q5, MIXTRAL_7B_Q5_URL) \<in> set quantized_models"
    by (simp add: quantized_models_def)
  have h: "HuggingFaceEmbedding sim_library ''BAAI/bge-small-en-v1.5'' (world sim_state)
      = (Inr ''BAAI/bge-small-en-v1.5'', world sim_state)"
    by (simp add: sim_library_def)
  have m: "LlamaCPP sim_library MIXTRAL_7B_Q5_URL 2048 (logger_level sim_state = logging_DEBUG)
      (world sim_state) = (Inr (MIXTRAL_7B_Q5_URL, 2048, True), world sim_state)"
    by (simp add: sim_library_def l)
  have b: "Some ''GPT-4'' \<notin> Some ` set recognized_labels"
    by (simp add: recognized_labels_def quantized_labels_def label_defs)
  note t = init_recognized_labels [where lib = sim_library and s = sim_state and dir = "Some ''storage''"
      and docs = None and model_type = "Some ''GPT-4''" and q = MIXTRAL_7B_Q5
      and url = MIXTRAL_7B_Q5_URL and m = "(MIXTRAL_7B_Q5_URL, 2048, True)"
      and ?w1.0 = "world sim_state" and emb' = "''BAAI/bge-small-en-v1.5''"
      and ?w2.0 = "world sim_state" and emb = "''BAAI/bge-small-en-v1.5''"
      and w = "world sim_state"]
  have 1: "LLM_DEFAULT \<in> set recognized_labels"
    using conjunct1 [OF t [where mt = LLM_DEFAULT]] by simp
  have "MIXTRAL_7B_Q5 \<in> fst ` set quantized_models"
    using q by (rule image_eqI [rotated]) simp
  then have 2: "MIXTRAL_7B_Q5 \<in> set recognized_labels"
    using conjunct1 [OF t [where mt = MIXTRAL_7B_Q5]] by simp
  note 3 = mp [OF conjunct1 [OF conjunct2 [OF t]] h]
  note 4 = mp [OF conjunct1 [OF conjunct2 [OF conjunct2 [OF t]]] conjI [OF q conjI [OF m h]]]
  note 5 = mp [OF conjunct2 [OF conjunct2 [OF conjunct2 [OF t]]] b]
  have a3: "fst (Index_init sim_library (Some ''storage'') None (Some LLM_DEFAULT) sim_state) =
     Inr \<lparr>verbose = True, documents = None, storage_dir = Some ''storage''\<rparr> \<and>
     Settings (snd (Index_init sim_library (Some ''storage'') None (Some LLM_DEFAULT) sim_state)) =
     \<lparr>llm = Some (Str ''default''), embed_model = Some (Obj ''BAAI/bge-small-en-v1.5''),
      chunk_size = Some 512\<rparr>"
    unfolding 3 l by (simp add: sim_state_def)
  have a4: "fst (Index_init sim_library (Some ''storage'') None (Some MIXTRAL_7B_Q5) sim_state) =
     Inr \<lparr>verbose = True, documents = None, storage_dir = Some ''storage''\<rparr> \<and>
     Settings (snd (Index_init sim_library (Some ''storage'') None (Some MIXTRAL_7B_Q5) sim_state)) =
     \<lparr>llm = Some (Obj (MIXTRAL_7B_Q5_URL, 2048, True)),
      embed_model = Some (Obj ''BAAI/bge-small-en-v1.5''), chunk_size = Some 512\<rparr>"
    unfolding 4 l by (simp add: sim_state_def)
  have a5: "Index_init sim_library (Some ''storage'') None (Some ''GPT-4'') sim_state =
     (Inl (TypeError ''LLM model type GPT-4 not supported''), sim_state)"
    using 5 by simp
  from 1 2 a3 a4 b a5 show ?thesis by (intro conjI) (erule conjunct1 conjunct2 | assumption)+
qed

text \<open>
  C6. For every recognized label, a construction that succeeds leaves
  \<open>Settings.chunk_size\<close> at exactly 512, whichever label it was.
\<close>

theorem init_chunk_size_512:
  assumes "mt \<in> set recognized_labels"
    and "Index_init lib dir docs (Some mt) s = (Inr self, s')"
  shows "chunk_size (Settings s') = Some 512"
proof -
  from init_success(2) [OF assms(2)] obtain u where
    "set_service_context lib self (Some mt) s = (Inr u, s')" by blast
  from ssc_success [OF this] show ?thesis by auto
qed

theorem init_chunk_size_512_witness:
  "''LLAMA2-13B_Q4'' \<in> set recognized_labels \<and>
   (\<exists>self s'. Index_init sim_library (Some ''storage'') None (Some ''LLAMA2-13B_Q4'') sim_state
        = (Inr self, s')) \<and>
   chunk_size (Settings (snd (Index_init sim_library (Some ''storage'') None
                                (Some ''LLAMA2-13B_Q4'') sim_state)))
     = Some 512"
proof -
  have a: "''LLAMA2-13B_Q4'' \<in> set recognized_labels"
    by (simp add: recognized_labels_def quantized_labels_def label_defs)
  obtain self s' where h:
    "Index_init sim_library (Some ''storage'') None (Some ''LLAMA2-13B_Q4'') sim_state
       = (Inr self, s')"
    by (simp add: op_defs sim_defs label_defs)
  from init_chunk_size_512 [OF a h] a h show ?thesis by simp
qed

text \<open>
  C8. The verbosity flag is the comparison of the logger's level with \<open>DEBUG\<close>, made at
  construction. For every quantized label the first call of the constructor is
  \<open>LlamaCPP\<close> on the label's URL, and the \<open>verbose\<close> argument the library receives is
  that comparison: what \<open>LlamaCPP\<close> does on exactly these arguments decides the outcome
  (its exception is the constructor's, its model is the one assigned to \<open>Settings.llm\<close>).
  For every object a construction returns, in whatever state \<open>persist\<close> is called later
  (the logger's level may have changed), \<open>persist\<close> with documents and a storage path
  hands \<open>from_documents\<close> that comparison as \<open>show_progress\<close>: what \<open>from_documents\<close>
  does on exactly these arguments decides the result of \<open>persist\<close>.
\<close>

theorem verbose_flag_passed_to_library:
  "set quantized_labels = fst ` set quantized_models \<and>
   ((mt, url) \<in> set quantized_models \<longrightarrow>
      take 1 (new_events s (snd (Index_init lib dir docs (Some mt) s))) =
        [Call_LlamaCPP url 2048 (logger_level s = logging_DEBUG)] \<and>
      (\<forall>e w1. LlamaCPP lib url 2048 (logger_level s = logging_DEBUG) (world s) = (Inl e, w1) \<longrightarrow>
         Index_init lib dir docs (Some mt) s =
           (Inl e,
            s\<lparr>trace := trace s @ [Call_LlamaCPP url 2048 (logger_level s = logging_DEBUG)],
              world := w1\<rparr>)) \<and>
      (\<forall>m w1. LlamaCPP lib url 2048 (logger_level s = logging_DEBUG) (world s) = (Inr m, w1) \<longrightarrow>
         llm (Settings (snd (Index_init lib dir docs (Some mt) s))) = Some (Obj m))) \<and>
   (Index_init lib dir docs model_type s = (Inr self, s1) \<longrightarrow>
      verbose self = (logger_level s = logging_DEBUG) \<and>
      (\<forall>ds d. docs = Some ds \<and> dir = Some d \<longrightarrow>
         take 2 (new_events s2 (snd (persist lib self s2))) =
           [LogInfo ''Building index over the documents ...'',
            Call_from_documents ds (logger_level s = logging_DEBUG)] \<and>
         fst (persist lib self s2) =
           (case from_documents lib (Settings s2) ds (logger_level s = logging_DEBUG) (world s2) of
              (Inl e, w) \<Rightarrow> Inl e
            | (Inr idx, w0) \<Rightarrow>
                (case storage_context_persist lib idx d w0 of
                   (Inl e, w) \<Rightarrow> Inl e
                 | (Inr u, w) \<Rightarrow> Inr (Some idx)))))"
proof -
  let ?self = "\<lparr>verbose = (logger_level s = logging_DEBUG), documents = docs, storage_dir = dir\<rparr>"
  have labels: "set quantized_labels = fst ` set quantized_models"
    by (simp add: quantized_labels_models)
  have model: "(mt, url) \<in> set quantized_models \<longrightarrow>
      take 1 (new_events s (snd (Index_init lib dir docs (Some mt) s))) =
        [Call_LlamaCPP url 2048 (logger_level s = logging_DEBUG)] \<and>
      (\<forall>e w1. LlamaCPP lib url 2048 (logger_level s = logging_DEBUG) (world s) = (Inl e, w1) \<longrightarrow>
         Index_init lib dir docs (Some mt) s =
           (Inl e,
            s\<lparr>trace := trace s @ [Call_LlamaCPP url 2048 (logger_level s = logging_DEBUG)],
              world := w1\<rparr>)) \<and>
      (\<forall>m w1. LlamaCPP lib url 2048 (logger_level s = logging_DEBUG) (world s) = (Inr m, w1) \<longrightarrow>
         llm (Settings (snd (Index_init lib dir docs (Some mt) s))) = Some (Obj m))"
  proof
    assume a: "(mt, url) \<in> set quantized_models"
    show "take 1 (new_events s (snd (Index_init lib dir docs (Some mt) s))) =
        [Call_LlamaCPP url 2048 (logger_level s = logging_DEBUG)] \<and>
      (\<forall>e w1. LlamaCPP lib url 2048 (logger_level s = logging_DEBUG) (world s) = (Inl e, w1) \<longrightarrow>
         Index_init lib dir docs (Some mt) s =
           (Inl e,
            s\<lparr>trace := trace s @ [Call_LlamaCPP url 2048 (logger_level s = logging_DEBUG)],
              world := w1\<rparr>)) \<and>
      (\<forall>m w1. LlamaCPP lib url 2048 (logger_level s = logging_DEBUG) (world s) = (Inr m, w1) \<longrightarrow>
         llm (Settings (snd (Index_init lib dir docs (Some mt) s))) = Some (Obj m))"
      by (intro conjI allI impI)
        (rule init_model_trace [OF a], erule init_model_raises [OF a], erule init_model_llm [OF a])
  qed
  have build: "Index_init lib dir docs model_type s = (Inr self, s1) \<longrightarrow>
      verbose self = (logger_level s = logging_DEBUG) \<and>
      (\<forall>ds d. docs = Some ds \<and> dir = Some d \<longrightarrow>
         take 2 (new_events s2 (snd (persist lib self s2))) =
           [LogInfo ''Building index over the documents ...'',
            Call_from_documents ds (logger_level s = logging_DEBUG)] \<and>
         fst (persist lib self s2) =
           (case from_documents lib (Settings s2) ds (logger_level s = logging_DEBUG) (world s2) of
              (Inl e, w) \<Rightarrow> Inl e
            | (Inr idx, w0) \<Rightarrow>
                (case storage_context_persist lib idx d w0 of
                   (Inl e, w) \<Rightarrow> Inl e
                 | (Inr u, w) \<Rightarrow> Inr (Some idx))))"
  proof
    assume "Index_init lib dir docs model_type s = (Inr self, s1)"
    from init_success(1) [OF this] have self: "self = ?self" .
    show "verbose self = (logger_level s = logging_DEBUG) \<and>
      (\<forall>ds d. docs = Some ds \<and> dir = Some d \<longrightarrow>
         take 2 (new_events s2 (snd (persist lib self s2))) =
           [LogInfo ''Building index over the documents ...'',
            Call_from_documents ds (logger_level s = logging_DEBUG)] \<and>
         fst (persist lib self s2) =
           (case from_documents lib (Settings s2) ds (logger_level s = logging_DEBUG) (world s2) of
              (Inl e, w) \<Rightarrow> Inl e
            | (Inr idx, w0) \<Rightarrow>
                (case storage_context_persist lib idx d w0 of
                   (Inl e, w) \<Rightarrow> Inl e
                 | (Inr u, w) \<Rightarrow> Inr (Some idx))))"
      using persist_build_trace [of ?self _ _ s2 lib] persist_build_result [of ?self _ _ lib s2]
      by (simp add: self)
  qed
  from labels model build show ?thesis by (intro conjI)
qed

theorem verbose_flag_passed_to_library_witness:
  "(LLAMA2_7B_Q5, LLAMA2_7B_Q5_URL) \<in> set quantized_models \<and>
   take 1 (new_events sim_state (snd (Index_init sim_library (Some ''storage'')
       (Some [''a test document'']) (Some LLAMA2_7B_Q5) sim_state))) =
     [Call_LlamaCPP LLAMA2_7B_Q5_URL 2048 True] \<and>
   llm (Settings (snd (Index_init sim_library (Some ''storage'')
       (Some [''a test document'']) (Some LLAMA2_7B_Q5) sim_state))) =
     Some (Obj (LLAMA2_7B_Q5_URL, 2048, True)) \<and>
   Index_init offline_library (Some ''storage'') (Some [''a test document''])
       (Some LLAMA2_7B_Q5) sim_state =
     (Inl (LibraryError ''model download failed''),
      sim_state\<lparr>trace := trace sim_state @ [Call_LlamaCPP LLAMA2_7B_Q5_URL 2048 True],
        world := world sim_state\<rparr>) \<and>
   (\<exists>self s1. Index_init sim_library (Some ''storage'') (Some [''a test document''])
        (Some LLAMA2_7B_Q5) sim_state = (Inr self, s1) \<and> verbose self \<and>
      take 2 (new_events (s1\<lparr>logger_level := 20\<rparr>)
                (snd (persist sim_library self (s1\<lparr>logger_level := 20\<rparr>)))) =
        [LogInfo ''Building index over the documents ...'',
         Call_from_documents [''a test document''] True] \<and>
      fst (persist sim_library self (s1\<lparr>logger_level := 20\<rparr>)) = Inr (Some [''a test document'']))"
proof -
  have l: "(logger_level sim_state = logging_DEBUG) = True"
    by (simp add: sim_state_def logging_DEBUG_def)
  have q: "(LLAMA2_7B_Q5, LLAMA2_7B_Q5_URL) \<in> set quantized_models"
    by (simp add: quantized_models_def)
  have m: "LlamaCPP sim_library LLAMA2_7B_Q5_URL 2048 (logger_level sim_state = logging_DEBUG)
      (world sim_state) = (Inr (LLAMA2_7B_Q5_URL, 2048, True), world sim_state)"
    by (simp add: sim_library_def l)
  have f: "LlamaCPP offline_library LLAMA2_7B_Q5_URL 2048 (logger_level sim_state = logging_DEBUG)
      (world sim_state) = (Inl (LibraryError ''model download failed''), world sim_state)"
    by (simp add: offline_library_def)
  obtain self s1 where h:
    "Index_init sim_library (Some ''storage'') (Some [''a test document''])
        (Some LLAMA2_7B_Q5) sim_state = (Inr self, s1)"
    by (simp add: op_defs sim_defs label_defs)
  note t = verbose_flag_passed_to_library [where s = sim_state and mt = LLAMA2_7B_Q5 and url = LLAMA2_7B_Q5_URL
      and dir = "Some ''storage''" and docs = "Some [''a test document'']"
      and model_type = "Some LLAMA2_7B_Q5"]
  note a = mp [OF conjunct1 [OF conjunct2 [OF t [where lib = sim_library]]] q]
  note a' = mp [OF conjunct1 [OF conjunct2 [OF t [where lib = offline_library]]] q]
  note b = mp [OF conjunct2 [OF conjunct2 [OF t [where lib = sim_library and self = self
      and ?s1.0 = s1 and ?s2.0 = "s1\<lparr>logger_level := 20\<rparr>"]]] h]
  have 1: "take 1 (new_events sim_state (snd (Index_init sim_library (Some ''storage'')
       (Some [''a test document'']) (Some LLAMA2_7B_Q5) sim_state))) =
     [Call_LlamaCPP LLAMA2_7B_Q5_URL 2048 True]"
    using conjunct1 [OF a] unfolding l .
  have 2: "llm (Settings (snd (Index_init sim_library (Some ''storage'')
       (Some [''a test document'']) (Some LLAMA2_7B_Q5) sim_state))) =
     Some (Obj (LLAMA2_7B_Q5_URL, 2048, True))"
    by (rule mp [OF spec [OF spec [OF conjunct2 [OF conjunct2 [OF a]]]] m])
  have 3: "Index_init offline_library (Some ''storage'') (Some [''a test document''])
       (Some LLAMA2_7B_Q5) sim_state =
     (Inl (LibraryError ''model download failed''),
      sim_state\<lparr>trace := trace sim_state @ [Call_LlamaCPP LLAMA2_7B_Q5_URL 2048 True],
        world := world sim_state\<rparr>)"
    using mp [OF spec [OF spec [OF conjunct1 [OF conjunct2 [OF a']]]] f] unfolding l .
  have 4: "verbose self" using conjunct1 [OF b] unfolding l by simp
  have p: "Some [''a test document''] = Some [''a test document''] \<and> Some ''storage'' = Some ''storage''"
    by simp
  note c = mp [OF spec [OF spec [OF conjunct2 [OF b]]] p]
  have 5: "take 2 (new_events (s1\<lparr>logger_level := 20\<rparr>)
                (snd (persist sim_library self (s1\<lparr>logger_level := 20\<rparr>)))) =
        [LogInfo ''Building index over the documents ...'',
         Call_from_documents [''a test document''] True]"
    using conjunct1 [OF c] unfolding l .
  have 6: "fst (persist sim_library self (s1\<lparr>logger_level := 20\<rparr>)) = Inr (Some [''a test document''])"
    unfolding conjunct2 [OF c] by (simp add: sim_library_def)
  from h 4 5 6 have "\<exists>self s1. Index_init sim_library (Some ''storage'') (Some [''a test document''])
        (Some LLAMA2_7B_Q5) sim_state = (Inr self, s1) \<and> verbose self \<and>
      take 2 (new_events (s1\<lparr>logger_level := 20\<rparr>)
                (snd (persist sim_library self (s1\<lparr>logger_level := 20\<rparr>)))) =
        [LogInfo ''Building index over the documents ...'',
         Call_from_documents [''a test document''] True] \<and>
      fst (persist sim_library self (s1\<lparr>logger_level := 20\<rparr>)) = Inr (Some [''a test document''])"
    by (intro exI conjI)
  with q 1 2 3 show ?thesis by (intro conjI)
qed

section \<open>persist\<close>

text \<open>
  C4. With the documents or the storage path \<open>None\<close>, \<open>persist\<close> raises nothing,
  returns \<open>None\<close>, and changes nothing but the log: the world, and so the storage
  directory, is as before. The index is built (\<open>from_documents\<close> is called) exactly
  when both are present, and written (\<open>storage_context.persist\<close> is called) only then.
\<close>

theorem persist_skips_without_documents_or_storage:
  "(documents self = None \<or> storage_dir self = None \<longrightarrow>
      persist lib self s =
        (Inr None,
         s\<lparr>trace := trace s @
           [LogInfo ''Documents or index storage path not provided, skipping index creation'']\<rparr>)) \<and>
   ((\<exists>ds p. Call_from_documents ds p \<in> set (new_events s (snd (persist lib self s)))) \<longleftrightarrow>
      documents self \<noteq> None \<and> storage_dir self \<noteq> None) \<and>
   ((\<exists>d. Call_persist d \<in> set (new_events s (snd (persist lib self s)))) \<longrightarrow>
      documents self \<noteq> None \<and> storage_dir self \<noteq> None)"
proof -
  have skip: "documents self = None \<or> storage_dir self = None \<longrightarrow>
      persist lib self s =
        (Inr None,
         s\<lparr>trace := trace s @
           [LogInfo ''Documents or index storage path not provided, skipping index creation'']\<rparr>)"
    using persist_skip [of self lib s] by blast
  have build: "(\<exists>ds p. Call_from_documents ds p \<in> set (new_events s (snd (persist lib self s)))) \<longleftrightarrow>
      documents self \<noteq> None \<and> storage_dir self \<noteq> None"
  proof (cases "documents self = None \<or> storage_dir self = None")
    case True
    from persist_skip [OF True, of lib s] True show ?thesis
      by (auto simp: new_events_def)
  next
    case False
    then obtain ds d where p: "documents self = Some ds" "storage_dir self = Some d" by auto
    from persist_build_trace [OF p, of s lib]
    have "Call_from_documents ds (verbose self)
            \<in> set (take 2 (new_events s (snd (persist lib self s))))"
      by simp
    then have "Call_from_documents ds (verbose self) \<in> set (new_events s (snd (persist lib self s)))"
      by (rule in_set_takeD)
    with p show ?thesis by auto
  qed
  have wr: "(\<exists>d. Call_persist d \<in> set (new_events s (snd (persist lib self s)))) \<longrightarrow>
      documents self \<noteq> None \<and> storage_dir self \<noteq> None"
  proof (cases "documents self = None \<or> storage_dir self = None")
    case True
    from persist_skip [OF True, of lib s] show ?thesis by (auto simp: new_events_def)
  next
    case False
    then show ?thesis by simp
  qed
  from skip build wr show ?thesis by (intro conjI)
qed

theorem persist_skips_without_documents_or_storage_witness:
  "persist sim_library \<lparr>verbose = False, documents = None, storage_dir = Some ''storage''\<rparr> sim_state =
     (Inr None,
      sim_state\<lparr>trace := trace sim_state @
           [LogInfo ''Documents or index storage path not provided, skipping index creation'']\<rparr>) \<and>
   (\<exists>ds p. Call_from_documents ds p \<in> set (new_events sim_state (snd (persist sim_library
       \<lparr>verbose = False, documents = Some [''a test document''], storage_dir = Some ''storage''\<rparr>
       sim_state)))) \<and>
   (\<exists>d. Call_persist d \<in> set (new_events sim_state (snd (persist sim_library
       \<lparr>verbose = False, documents = Some [''a test document''], storage_dir = Some ''storage''\<rparr>
       sim_state))))"
proof -
  let ?a = "\<lparr>verbose = False, documents = None, storage_dir = Some ''storage''\<rparr>"
  let ?b = "\<lparr>verbose = False, documents = Some [''a test document''],
             storage_dir = Some ''storage''\<rparr>"
  have 1: "documents ?a = None \<or> storage_dir ?a = None" by simp
  have 2: "documents ?b \<noteq> None \<and> storage_dir ?b \<noteq> None" by simp
  have 3: "\<exists>d. Call_persist d \<in> set (new_events sim_state (snd (persist sim_library ?b sim_state)))"
    by (simp add: op_defs sim_defs)
  from persist_skips_without_documents_or_storage [of ?a sim_library sim_state]
    persist_skips_without_documents_or_storage [of ?b sim_library sim_state] 1 2 3
  show ?thesis by blast
qed



section \<open>load\<close>

text \<open>
  C5. With a storage path: when the path does not exist, \<open>load\<close> raises nothing,
  returns \<open>None\<close> and changes nothing but the log; it attempts to read the index (calls
  \<open>StorageContext.from_defaults\<close> on the path) exactly when the path exists; and when
  the path exists and the library reads an index from it, that index is the result.
\<close>

theorem load_reads_iff_storage_exists:
  assumes "storage_dir self = Some d"
  shows "(\<not> path_exists lib d (world s) \<longrightarrow>
            load lib self s =
              (Inr None,
               s\<lparr>trace := trace s @
                    [Call_exists (Some d),
                     LogInfo (''No storage found at '' @ d @ '' from which to load the index'')]\<rparr>)) \<and>
         (Call_from_defaults (Some d) \<in> set (new_events s (snd (load lib self s)))
            \<longleftrightarrow> path_exists lib d (world s)) \<and>
         (\<forall>sc w1 idx w2.
            path_exists lib d (world s) \<and> from_defaults lib (Some d) (world s) = (Inr sc, w1) \<and>
            load_index_from_storage lib (Settings s) sc w1 = (Inr idx, w2) \<longrightarrow>
            fst (load lib self s) = Inr (Some idx))"
proof -
  note d = assms
  have absent: "\<not> path_exists lib d (world s) \<longrightarrow>
      load lib self s =
        (Inr None,
         s\<lparr>trace := trace s @
              [Call_exists (Some d),
               LogInfo (''No storage found at '' @ d @ '' from which to load the index'')]\<rparr>)"
    using load_absent [OF d] by blast
  have attempt: "Call_from_defaults (Some d) \<in> set (new_events s (snd (load lib self s)))
      \<longleftrightarrow> path_exists lib d (world s)"
  proof (cases "path_exists lib d (world s)")
    case True
    from load_present_trace [OF d True]
    have "Call_from_defaults (Some d) \<in> set (take 3 (new_events s (snd (load lib self s))))"
      by simp
    then have "Call_from_defaults (Some d) \<in> set (new_events s (snd (load lib self s)))"
      by (rule in_set_takeD)
    with True show ?thesis by simp
  next
    case False
    from load_absent [OF d False] False show ?thesis by (simp add: new_events_def)
  qed
  have result: "\<forall>sc w1 idx w2.
      path_exists lib d (world s) \<and> from_defaults lib (Some d) (world s) = (Inr sc, w1) \<and>
      load_index_from_storage lib (Settings s) sc w1 = (Inr idx, w2) \<longrightarrow>
      fst (load lib self s) = Inr (Some idx)"
    using load_present_result [OF d] by fastforce
  from absent attempt result show ?thesis by (intro conjI)
qed

theorem load_reads_iff_storage_exists_witness:
  "load sim_library \<lparr>verbose = False, documents = None, storage_dir = Some ''storage''\<rparr> sim_state =
     (Inr None,
      sim_state\<lparr>trace := trace sim_state @
           [Call_exists (Some ''storage''),
            LogInfo (''No storage found at '' @ ''storage'' @ '' from which to load the index'')]\<rparr>) \<and>
   Call_from_defaults (Some ''storage'') \<notin> set (new_events sim_state (snd (load sim_library
      \<lparr>verbose = False, documents = None, storage_dir = Some ''storage''\<rparr> sim_state))) \<and>
   fst (load sim_library \<lparr>verbose = False, documents = None, storage_dir = Some ''storage''\<rparr>
      (sim_state\<lparr>world := [''storage'' \<mapsto> [''a test document'']]\<rparr>))
     = Inr (Some [''a test document'']) \<and>
   Call_from_defaults (Some ''storage'') \<in> set (new_events
      (sim_state\<lparr>world := [''storage'' \<mapsto> [''a test document'']]\<rparr>)
      (snd (load sim_library \<lparr>verbose = False, documents = None, storage_dir = Some ''storage''\<rparr>
      (sim_state\<lparr>world := [''storage'' \<mapsto> [''a test document'']]\<rparr>))))"
proof -
  let ?self = "\<lparr>verbose = False, documents = None, storage_dir = Some ''storage''\<rparr>"
  let ?s = "sim_state\<lparr>world := [''storage'' \<mapsto> [''a test document'']]\<rparr>"
  have d: "storage_dir ?self = Some ''storage''" by simp
  have a: "\<not> path_exists sim_library ''storage'' (world sim_state)"
    by (simp add: sim_defs)
  have p: "path_exists sim_library ''storage'' (world ?s) \<and>
      from_defaults sim_library (Some ''storage'') (world ?s) = (Inr ''storage'', world ?s) \<and>
      load_index_from_storage sim_library (Settings ?s) ''storage'' (world ?s)
        = (Inr [''a test document''], world ?s)"
    by (simp add: sim_defs)
  from load_reads_iff_storage_exists [OF d, of sim_library sim_state] a
  have 1: "load sim_library ?self sim_state =
     (Inr None,
      sim_state\<lparr>trace := trace sim_state @
           [Call_exists (Some ''storage''),
            LogInfo (''No storage found at '' @ ''storage'' @ '' from which to load the index'')]\<rparr>) \<and>
     Call_from_defaults (Some ''storage'')
       \<notin> set (new_events sim_state (snd (load sim_library ?self sim_state)))"
    by blast
  from load_reads_iff_storage_exists [OF d, of sim_library ?s] p
  have 2: "fst (load sim_library ?self ?s) = Inr (Some [''a test document'']) \<and>
     Call_from_defaults (Some ''storage'') \<in> set (new_events ?s (snd (load sim_library ?self ?s)))"
    by blast
  from 1 2 show ?thesis by blast
qed

text \<open>
  C10. On a storage path that is \<open>None\<close> the two operations differ: \<open>persist\<close> takes
  the skip and returns \<open>None\<close>, while \<open>load\<close> has no such test, calls
  \<open>os.path.exists(None)\<close> and lets its \<open>TypeError\<close> reach the caller.
\<close>

theorem none_storage_dir_persist_skips_load_raises:
  assumes "storage_dir self = None"
  shows "persist lib self s =
           (Inr None,
            s\<lparr>trace := trace s @
              [LogInfo ''Documents or index storage path not provided, skipping index creation'']\<rparr>) \<and>
         load lib self s =
           (Inl (TypeError
                   ''stat: path should be string, bytes, os.PathLike or integer, not NoneType''),
            s\<lparr>trace := trace s @ [Call_exists None]\<rparr>)"
  using assms
  by (simp add: persist_def load_def storage_exists_def os_path_exists_def emit_def)

theorem none_storage_dir_persist_skips_load_raises_witness:
  "fst (persist sim_library
       \<lparr>verbose = True, documents = Some [''a test document''], storage_dir = None\<rparr> sim_state)
     = Inr None \<and>
   fst (load sim_library
       \<lparr>verbose = True, documents = Some [''a test document''], storage_dir = None\<rparr> sim_state) =
     Inl (TypeError ''stat: path should be string, bytes, os.PathLike or integer, not NoneType'')"
  using none_storage_dir_persist_skips_load_raises
    [of "\<lparr>verbose = True, documents = Some [''a test document''], storage_dir = None\<rparr>"
      sim_library sim_state]
  by simp

section \<open>persist, then load\<close>



end
